theory Spec2Isabelle
  imports Main "HOL-Library.AList"
begin

section \<open>JavaScript values\<close>

text \<open>
  A property that may be missing is an \<open>option\<close>: \<open>None\<close> stands for
  \<^verbatim>\<open>undefined\<close>/\<^verbatim>\<open>null\<close>. The source tests such values by truthiness
  (\<^verbatim>\<open>if (tokens.refresh_token)\<close>, \<^verbatim>\<open>tokens.expires_in || 3600\<close>): a string is
  truthy when it is present and not empty, a number when it is present and not zero.
  Times are milliseconds since the epoch, as \<^verbatim>\<open>Date.now()\<close> gives them.
  \<^verbatim>\<open>updateUserTokens\<close> takes each of its four readings of the clock as a parameter of
  its own; the operations around it are taken to run within the one instant \<open>now\<close>.
  A \<^verbatim>\<open>Date\<close> holds a time within 8.64e15 ms of the epoch: beyond that
  \<^verbatim>\<open>new Date(t)\<close> is an invalid date, which the database layer refuses to store.
\<close>

definition truthy :: "string option \<Rightarrow> bool" where
  "truthy v = (case v of None \<Rightarrow> False | Some s \<Rightarrow> s \<noteq> [])"

definition num_or :: "int option \<Rightarrow> int \<Rightarrow> int" where
  \<comment> \<open>\<^verbatim>\<open>v || d\<close> on a number\<close>
  "num_or v d = (case v of None \<Rightarrow> d | Some n \<Rightarrow> if n \<noteq> 0 then n else d)"

definition valid_date :: "int \<Rightarrow> bool" where
  "valid_date t = (- 8640000000000000 \<le> t \<and> t \<le> 8640000000000000)"

definition str_or :: "string option \<Rightarrow> string option \<Rightarrow> string option" where
  \<comment> \<open>\<^verbatim>\<open>a || b\<close> on strings\<close>
  "str_or a b = (if truthy a then a else b)"

section \<open>The Credential Store: the User collection (src/models/User.js)\<close>

record google_tokens =
  accessToken :: "string option"
  refreshToken :: "string option"
  accessTokenExpiry :: "int option"
  expiryDate :: "int option"
  scope :: "string list"

record user =
  name :: string
  email :: string
  googleId :: "string option"
  profilePicture :: "string option"
  googleTokens :: "google_tokens option"
  lastLogin :: "int option"

text \<open>
  The collection is a list of documents keyed by \<^verbatim>\<open>_id\<close>. The database itself
  (connection loss, write errors) is outside the model: reads and writes succeed.
\<close>

type_synonym collection = "(string \<times> user) list"

definition findById :: "string \<Rightarrow> collection \<Rightarrow> user option" where
  "findById uid us = map_of us uid"

definition findByIdAndUpdate :: "string \<Rightarrow> (user \<Rightarrow> user) \<Rightarrow> collection \<Rightarrow> collection" where
  "findByIdAndUpdate uid f us = map (\<lambda>(k, u). if k = uid then (k, f u) else (k, u)) us"

definition no_tokens :: google_tokens where
  "no_tokens = \<lparr>accessToken = None, refreshToken = None, accessTokenExpiry = None,
                 expiryDate = None, scope = []\<rparr>"

definition set_googleTokens :: "(google_tokens \<Rightarrow> google_tokens) \<Rightarrow> user \<Rightarrow> user" where
  \<comment> \<open>an update of dotted paths \<^verbatim>\<open>"googleTokens.x"\<close>: the nested object is created when missing\<close>
  "set_googleTokens f u =
     u\<lparr>googleTokens := Some (f (case googleTokens u of None \<Rightarrow> no_tokens | Some g \<Rightarrow> g))\<rparr>"

definition stored_tokens :: "collection \<Rightarrow> string \<Rightarrow> google_tokens option" where
  \<comment> \<open>\<^verbatim>\<open>user.googleTokens\<close> of the stored document, if any\<close>
  "stored_tokens us uid = (case findById uid us of None \<Rightarrow> None | Some u \<Rightarrow> googleTokens u)"

definition stored_refreshToken :: "collection \<Rightarrow> string \<Rightarrow> string option" where
  \<comment> \<open>\<^verbatim>\<open>user.googleTokens.refreshToken\<close> of the stored document, if any\<close>
  "stored_refreshToken us uid =
     (case findById uid us of None \<Rightarrow> None
      | Some u \<Rightarrow> (case googleTokens u of None \<Rightarrow> None | Some g \<Rightarrow> refreshToken g))"

section \<open>The Token Cache (src/services/googleApiService.js, lines 11-30)\<close>

text \<open>
  \<^verbatim>\<open>tokenCache\<close> is the cache of \<^verbatim>\<open>src/middleware/cache.js\<close> or, when that module
  cannot be loaded, the object defined in the service itself; both offer \<^verbatim>\<open>set\<close> with a
  time to live in seconds, \<^verbatim>\<open>get\<close> and \<^verbatim>\<open>del\<close>. The model follows the object of
  the service: an entry past its time is dropped by the \<^verbatim>\<open>get\<close> that finds it,
  and an entry is past its time from the instant \<open>expires\<close> on (at that one instant
  the cache of the middleware still answers; the two agree at every other instant).
\<close>

record credentials =
  access_token :: "string option"
  refresh_token :: "string option"
  expiry_date :: "int option"
  expires_in :: "int option"

record cache_item =
  cvalue :: credentials
  expires :: int

type_synonym token_cache = "string \<Rightarrow> cache_item option"

definition cache_set :: "string \<Rightarrow> credentials \<Rightarrow> int \<Rightarrow> int \<Rightarrow> token_cache \<Rightarrow> token_cache" where
  "cache_set key v ttl now c =
     c(key \<mapsto> \<lparr>cvalue = v,
                 expires = (if ttl \<noteq> 0 then now + ttl * 1000 else now + 3600000)\<rparr>)"

definition cache_get :: "string \<Rightarrow> int \<Rightarrow> token_cache \<Rightarrow> credentials option \<times> token_cache" where
  "cache_get key now c =
     (case c key of
        None \<Rightarrow> (None, c)
      | Some item \<Rightarrow>
          if expires item > now then (Some (cvalue item), c)
          else (None, c(key := None)))"

definition cache_del :: "string \<Rightarrow> token_cache \<Rightarrow> token_cache" where
  "cache_del key c = c(key := None)"

section \<open>The service state\<close>

text \<open>
  OAuth2 clients and request objects are JavaScript objects held by reference: they live
  in a heap (a list indexed by reference). \<open>oauthClientPool\<close> is the module's
  \<^verbatim>\<open>Map\<close>, kept in insertion order; \<open>oauth2Client\<close> is the singleton's
  \<^verbatim>\<open>this.oauth2Client\<close>. \<open>exchanges\<close> counts the calls of the provider's
  token exchange (\<^verbatim>\<open>refreshAccessToken\<close>) made so far. A request object is its
  \<^verbatim>\<open>req.user\<close>: the \<^verbatim>\<open>_id\<close> and the document, when a user is attached.
\<close>

record oauth2 =
  client_credentials :: credentials

record world =
  users :: collection
  tokenCache :: token_cache
  oauthClientPool :: "(string \<times> nat) list"
  clients :: "oauth2 list"
  oauth2Client :: "nat option"
  requests :: "(string \<times> user) option list"
  exchanges :: nat

definition no_credentials :: credentials where
  "no_credentials = \<lparr>access_token = None, refresh_token = None, expiry_date = None,
                      expires_in = None\<rparr>"

definition setCredentials :: "nat \<Rightarrow> credentials \<Rightarrow> world \<Rightarrow> world" where
  "setCredentials c t w = w\<lparr>clients := (clients w)[c := \<lparr>client_credentials = t\<rparr>]\<rparr>"

section \<open>The Client Pool: getOAuthClient (lines 42-95)\<close>

definition getOAuthClient :: "string \<Rightarrow> credentials option \<Rightarrow> world \<Rightarrow> nat \<times> world" where
  "getOAuthClient userId tokens w =
     (let cacheKey = ''oauth_'' @ userId in
      case map_of (oauthClientPool w) cacheKey of
        Some client \<Rightarrow>
          (client, (case tokens of None \<Rightarrow> w | Some t \<Rightarrow> setCredentials client t w))
      | None \<Rightarrow>
          (let client = length (clients w);
               w1 = w\<lparr>clients := clients w @ [\<lparr>client_credentials = no_credentials\<rparr>]\<rparr>;
               w2 = (case tokens of None \<Rightarrow> w1 | Some t \<Rightarrow> setCredentials client t w1);
               pool1 = (if length (oauthClientPool w2) > 100
                        then (case oauthClientPool w2 of
                                [] \<Rightarrow> []
                              | (firstKey, _) # _ \<Rightarrow> AList.delete firstKey (oauthClientPool w2))
                        else oauthClientPool w2);
               pool2 = AList.update cacheKey client pool1
           in (client, w2\<lparr>oauthClientPool := pool2\<rparr>)))"

section \<open>The Token Lifecycle Manager (lines 97-268)\<close>

definition syncTokensWithSession :: "string \<Rightarrow> nat option \<Rightarrow> world \<Rightarrow> world" where
  "syncTokensWithSession userId req w =
     (case req of
        None \<Rightarrow> w
      | Some r \<Rightarrow>
          (if r < length (requests w) then
             (case requests w ! r of
                None \<Rightarrow> w
              | Some (rid, _) \<Rightarrow>
                  if rid \<noteq> [] \<and> rid = userId then
                    (case findById userId (users w) of
                       None \<Rightarrow> w
                     | Some updatedUser \<Rightarrow>
                         w\<lparr>requests := (requests w)[r := Some (userId, updatedUser)]\<rparr>)
                  else w)
           else w))"

text \<open>
  \<open>updateData\<close> is the update document of \<^verbatim>\<open>updateUserTokens\<close> (lines 158-173),
  applied to the stored \<^verbatim>\<open>googleTokens\<close>. \<open>now1\<close> and \<open>now2\<close> are the readings
  of \<^verbatim>\<open>Date.now()\<close> at lines 161 and 165. A key whose value is \<^verbatim>\<open>undefined\<close> is
  left out of the update, so a missing access token keeps the stored one; the refresh
  token is among the fields set only when the tokens carry a truthy one.
\<close>

definition updateData :: "credentials \<Rightarrow> int \<Rightarrow> int \<Rightarrow> google_tokens \<Rightarrow> google_tokens" where
  "updateData tokens now1 now2 g =
     (let g1 = g\<lparr>accessToken := (case access_token tokens of
                                    None \<Rightarrow> accessToken g
                                  | Some a \<Rightarrow> Some a),
                 accessTokenExpiry := Some (now1 + num_or (expires_in tokens) 3600 * 1000),
                 expiryDate := Some (now2 + num_or (expires_in tokens) 3600 * 1000)\<rparr>
      in if truthy (refresh_token tokens) then g1\<lparr>refreshToken := refresh_token tokens\<rparr>
         else g1)"

text \<open>
  \<^verbatim>\<open>updateUserTokens\<close> (lines 156-195). The update is refused as a whole, before
  anything is written, when one of the two dates is invalid; the error is thrown on to
  the caller. \<open>now3\<close> is the reading of line 185 and \<open>now4\<close> the one the cache
  takes when it stores the entry.
\<close>

definition updateUserTokens ::
  "string \<Rightarrow> credentials \<Rightarrow> nat option \<Rightarrow> int \<Rightarrow> int \<Rightarrow> int \<Rightarrow> int \<Rightarrow> world
     \<Rightarrow> string + world" where
  "updateUserTokens userId tokens req now1 now2 now3 now4 w =
     (if valid_date (now1 + num_or (expires_in tokens) 3600 * 1000)
         \<and> valid_date (now2 + num_or (expires_in tokens) 3600 * 1000)
      then
        (let w1 = w\<lparr>users := findByIdAndUpdate userId
                                (set_googleTokens (updateData tokens now1 now2)) (users w)\<rparr>;
             w2 = syncTokensWithSession userId req w1;
             cacheTokens = \<lparr>access_token = access_token tokens,
                            refresh_token = refresh_token tokens,
                            expiry_date = Some (now3 + num_or (expires_in tokens) 3600 * 1000),
                            expires_in = None\<rparr>
         in Inr (w2\<lparr>tokenCache :=
                       cache_set (''tokens_'' @ userId) cacheTokens 3000 now4 (tokenCache w2)\<rparr>))
      else Inl ''CastError'')"

text \<open>
  \<^verbatim>\<open>getOAuthClient\<close> also registers, on each client it creates, a listener for the
  client's own \<^verbatim>\<open>tokens\<close> event (lines 72-92). The event is raised by the client
  library, outside the calls modelled here; \<open>onTokens\<close> is what the listener does
  when it is. An error of the update is caught and logged there.
\<close>

definition onTokens :: "string \<Rightarrow> credentials \<Rightarrow> int \<Rightarrow> world \<Rightarrow> world" where
  "onTokens userId newTokens now w =
     (case updateUserTokens userId newTokens None now now now now w of
        Inl e \<Rightarrow> w
      | Inr w1 \<Rightarrow>
          (let cacheTokens = \<lparr>access_token = access_token newTokens,
                              refresh_token = refresh_token newTokens,
                              expiry_date = Some (num_or (expiry_date newTokens) (now + 3600000)),
                              expires_in = None\<rparr>
           in w1\<lparr>tokenCache :=
                   cache_set (''tokens_'' @ userId) cacheTokens 3000 now (tokenCache w1)\<rparr>))"

text \<open>
  The provider's token exchange (\<^verbatim>\<open>oauth2Client.refreshAccessToken()\<close>) is the
  parameter \<open>provider\<close>: given the credentials set on the client it answers with new
  credentials (\<open>Inr\<close>) or rejects with a message (\<open>Inl\<close>). An error thrown by the
  source is \<open>Inl\<close> of its message.
\<close>

definition refreshToken_try ::
  "string \<Rightarrow> nat option \<Rightarrow> (credentials \<Rightarrow> string + credentials) \<Rightarrow> int \<Rightarrow> world
     \<Rightarrow> (string + credentials) \<times> world" where
  \<comment> \<open>the body of the \<^verbatim>\<open>try\<close> block, lines 221-257\<close>
  "refreshToken_try userId req provider now w =
     (case findById userId (users w) of
        None \<Rightarrow> (Inl ''No refresh token available - user needs to re-authenticate'', w)
      | Some u \<Rightarrow>
          (case googleTokens u of
             None \<Rightarrow> (Inl ''No refresh token available - user needs to re-authenticate'', w)
           | Some g \<Rightarrow>
               if \<not> truthy (refreshToken g)
               then (Inl ''No refresh token available - user needs to re-authenticate'', w)
               else
                 (case getOAuthClient userId None w of
                    (client, w1) \<Rightarrow>
                      (let w2 = setCredentials client
                                  (no_credentials\<lparr>refresh_token := refreshToken g\<rparr>) w1;
                           w3 = w2\<lparr>exchanges := Suc (exchanges w2)\<rparr>
                       in case provider (no_credentials\<lparr>refresh_token := refreshToken g\<rparr>) of
                            Inl e \<Rightarrow> (Inl e, w3)
                          | Inr response \<Rightarrow>
                              (let credentials =
                                     (if \<not> truthy (refresh_token response)
                                      then response\<lparr>refresh_token := refreshToken g\<rparr>
                                      else response)
                               in case updateUserTokens userId credentials req
                                         now now now now w3 of
                                    Inl e \<Rightarrow> (Inl e, w3)
                                  | Inr w4 \<Rightarrow>
                                      (let w5 = setCredentials client
                                                  \<lparr>access_token = access_token credentials,
                                                   refresh_token = refresh_token credentials,
                                                   expiry_date = expiry_date credentials,
                                                   expires_in = None\<rparr> w4
                                       in (Inr credentials,
                                           w5\<lparr>oauth2Client := Some client\<rparr>)))))))"

definition refreshToken_svc ::
  "string \<Rightarrow> nat option \<Rightarrow> (credentials \<Rightarrow> string + credentials) \<Rightarrow> int \<Rightarrow> world
     \<Rightarrow> (string + credentials) \<times> world" where
  \<comment> \<open>\<^verbatim>\<open>refreshToken(userId, req)\<close>: the \<^verbatim>\<open>try\<close> block under its \<^verbatim>\<open>catch\<close>, lines 258-267\<close>
  "refreshToken_svc userId req provider now w =
     (case refreshToken_try userId req provider now w of
        (Inr credentials, w') \<Rightarrow> (Inr credentials, w')
      | (Inl error, w') \<Rightarrow>
          (Inl ''Token refresh failed - user may need to re-authenticate'',
           w'\<lparr>tokenCache := cache_del (''tokens_'' @ userId) (tokenCache w')\<rparr>))"

definition loadTokens :: "string \<Rightarrow> int \<Rightarrow> world \<Rightarrow> (string + credentials) \<times> world" where
  \<comment> \<open>lines 100-128 of \<^verbatim>\<open>setupClient\<close>: the snapshot, from the cache or else the store\<close>
  "loadTokens userId now w =
     (case cache_get (''tokens_'' @ userId) now (tokenCache w) of
        (Some tokens, c) \<Rightarrow> (Inr tokens, w\<lparr>tokenCache := c\<rparr>)
      | (None, c) \<Rightarrow>
          (case findById userId (users w) of
             None \<Rightarrow> (Inl ''User not found or no Google tokens available'', w\<lparr>tokenCache := c\<rparr>)
           | Some u \<Rightarrow>
               (case googleTokens u of
                  None \<Rightarrow>
                    (Inl ''User not found or no Google tokens available'', w\<lparr>tokenCache := c\<rparr>)
                | Some g \<Rightarrow>
                    if \<not> truthy (accessToken g)
                    then (Inl ''User not found or no Google tokens available'',
                          w\<lparr>tokenCache := c\<rparr>)
                    else
                      (let tokens = \<lparr>access_token = accessToken g,
                                      refresh_token = refreshToken g,
                                      expiry_date = (case accessTokenExpiry g of
                                                       Some t \<Rightarrow> Some t
                                                     | None \<Rightarrow> expiryDate g),
                                      expires_in = None\<rparr>
                       in (Inr tokens,
                           w\<lparr>tokenCache := cache_set (''tokens_'' @ userId) tokens 3000 now c\<rparr>)))))"

definition timeUntilExpiry :: "credentials \<Rightarrow> int \<Rightarrow> int option" where
  \<comment> \<open>\<^verbatim>\<open>new Date(tokens.expiry_date).getTime() - now.getTime()\<close>; \<open>None\<close> is \<^verbatim>\<open>NaN\<close>\<close>
  "timeUntilExpiry tokens now =
     (case expiry_date tokens of None \<Rightarrow> None | Some t \<Rightarrow> Some (t - now))"

definition expiresSoon :: "credentials \<Rightarrow> int \<Rightarrow> bool" where
  \<comment> \<open>\<^verbatim>\<open>timeUntilExpiry < 300000\<close>; a comparison with \<^verbatim>\<open>NaN\<close> is false\<close>
  "expiresSoon tokens now =
     (case timeUntilExpiry tokens now of None \<Rightarrow> False | Some d \<Rightarrow> d < 300000)"

definition setupClient ::
  "string \<Rightarrow> nat option \<Rightarrow> (credentials \<Rightarrow> string + credentials) \<Rightarrow> int \<Rightarrow> world
     \<Rightarrow> (string + nat option) \<times> world" where
  "setupClient userId req provider now w =
     (case loadTokens userId now w of
        (Inl e, w1) \<Rightarrow> (Inl e, w1)
      | (Inr tokens, w1) \<Rightarrow>
          (case getOAuthClient userId (Some tokens) w1 of
             (client, w2) \<Rightarrow>
               (let w3 = w2\<lparr>oauth2Client := Some client\<rparr>
                in if expiresSoon tokens now then
                     (case refreshToken_svc userId req provider now w3 of
                        (Inl e, w4) \<Rightarrow> (Inl e, w4)
                      | (Inr _, w4) \<Rightarrow> (Inr (oauth2Client w4), w4))
                   else (Inr (oauth2Client w3), w3))))"

section \<open>The consent handler: the GoogleStrategy verify callback\<close>

record profile =
  profile_id :: string
  displayName :: string
  emails :: "string list"
  photos :: "string list"

definition granted_scope :: "string list" where
  "granted_scope =
     [''https://www.googleapis.com/auth/gmail.readonly'',
      ''https://www.googleapis.com/auth/gmail.send'',
      ''https://www.googleapis.com/auth/gmail.modify'',
      ''https://www.googleapis.com/auth/calendar.readonly'',
      ''https://www.googleapis.com/auth/calendar.events'',
      ''https://www.googleapis.com/auth/tasks'',
      ''https://www.googleapis.com/auth/tasks.readonly'']"

definition findOne :: "(user \<Rightarrow> bool) \<Rightarrow> collection \<Rightarrow> (string \<times> user) option" where
  "findOne p us = find (\<lambda>(k, u). p u) us"

definition save :: "string \<Rightarrow> user \<Rightarrow> collection \<Rightarrow> collection" where
  \<comment> \<open>\<^verbatim>\<open>user.save()\<close>: the document is written back under its \<^verbatim>\<open>_id\<close>\<close>
  "save uid u us = findByIdAndUpdate uid (\<lambda>_. u) us"

definition toLowerCase :: "string \<Rightarrow> string" where
  \<comment> \<open>the schema's \<^verbatim>\<open>lowercase: true\<close> of \<^verbatim>\<open>email\<close>, on the letters A-Z\<close>
  "toLowerCase s =
     map (\<lambda>c. if 65 \<le> (of_char c :: nat) \<and> (of_char c :: nat) \<le> 90
              then char_of ((of_char c :: nat) + 32) else c) s"

definition whitespace :: "char \<Rightarrow> bool" where
  "whitespace c = ((of_char c :: nat) = 32 \<or> (9 \<le> (of_char c :: nat) \<and> (of_char c :: nat) \<le> 13))"

definition trim :: "string \<Rightarrow> string" where
  \<comment> \<open>the schema's \<^verbatim>\<open>trim: true\<close> of \<^verbatim>\<open>name\<close>\<close>
  "trim s = rev (dropWhile whitespace (rev (dropWhile whitespace s)))"

definition first_photo :: "profile \<Rightarrow> string option" where
  \<comment> \<open>\<^verbatim>\<open>profile.photos[0]?.value\<close>\<close>
  "first_photo p = (case photos p of [] \<Rightarrow> None | x # _ \<Rightarrow> Some x)"

text \<open>
  \<^verbatim>\<open>src/config/passport.js\<close>, lines 24-110. Assigning an object to the nested path
  \<^verbatim>\<open>user.googleTokens\<close> replaces the nested object, so a key the new object leaves
  \<^verbatim>\<open>undefined\<close> is cleared. \<open>newId\<close> is the \<^verbatim>\<open>_id\<close> the database gives a created
  document and \<open>valid\<close> the schema's validation of it (\<^verbatim>\<open>User.create\<close>); reading
  \<^verbatim>\<open>profile.emails[0].value\<close> of a profile without an address throws. The schema of
  \<^verbatim>\<open>src/models/User.js\<close> lowercases an e-mail address in a query and in a created
  document, and trims the name.
\<close>

definition verifyCallback ::
  "string \<Rightarrow> string option \<Rightarrow> profile \<Rightarrow> string \<Rightarrow> (user \<Rightarrow> bool) \<Rightarrow> int \<Rightarrow> collection
     \<Rightarrow> (string + string \<times> user) \<times> collection" where
  "verifyCallback accessTok refreshTok prof newId valid now us =
     (case emails prof of
        [] \<Rightarrow> (Inl ''TypeError'', us)
      | email0 # _ \<Rightarrow>
          (case findOne (\<lambda>u. googleId u = Some (profile_id prof)) us of
             Some (uid, u) \<Rightarrow>
               (let u' = u\<lparr>googleTokens :=
                              Some \<lparr>accessToken = Some accessTok, refreshToken = refreshTok,
                                    accessTokenExpiry = None,
                                    expiryDate = Some (now + 3600000),
                                    scope = granted_scope\<rparr>,
                            lastLogin := Some now\<rparr>
                in (Inr (uid, u'), save uid u' us))
           | None \<Rightarrow>
               (case findOne (\<lambda>u. email u = toLowerCase email0) us of
                  Some (uid, u) \<Rightarrow>
                    (let u' = u\<lparr>googleId := Some (profile_id prof),
                                 profilePicture := first_photo prof,
                                 googleTokens :=
                                   Some \<lparr>accessToken = Some accessTok, refreshToken = refreshTok,
                                         accessTokenExpiry = None,
                                         expiryDate = Some (now + 3600000),
                                         scope = granted_scope\<rparr>,
                                 lastLogin := Some now\<rparr>
                     in (Inr (uid, u'), save uid u' us))
                | None \<Rightarrow>
                    (let u' = \<lparr>name = trim (displayName prof), email = toLowerCase email0,
                               googleId = Some (profile_id prof),
                               profilePicture = first_photo prof,
                               googleTokens =
                                 Some \<lparr>accessToken = Some accessTok, refreshToken = refreshTok,
                                       accessTokenExpiry = None,
                                       expiryDate = Some (now + 3600000),
                                       scope = granted_scope\<rparr>,
                               lastLogin = Some now\<rparr>
                     in if valid u' then (Inr (newId, u'), us @ [(newId, u')])
                        else (Inl ''ValidationError'', us)))))"

text \<open>
  The repository holds a second copy of the handler (\<^verbatim>\<open>src/unnamed/part_006\<close>, marked
  \<^verbatim>\<open>FIXED: Preserve existing refresh token if new one not provided\<close>), which writes
  \<^verbatim>\<open>refreshToken || user.googleTokens?.refreshToken\<close> and both expiry fields.
\<close>

definition tokenData :: "string \<Rightarrow> string option \<Rightarrow> int \<Rightarrow> google_tokens" where
  "tokenData accessTok refreshTok now =
     \<lparr>accessToken = Some accessTok, refreshToken = refreshTok,
      accessTokenExpiry = Some (now + 3600000), expiryDate = Some (now + 3600000),
      scope = granted_scope\<rparr>"

definition existing_refreshToken :: "user \<Rightarrow> string option" where
  \<comment> \<open>\<^verbatim>\<open>user.googleTokens?.refreshToken\<close>\<close>
  "existing_refreshToken u = (case googleTokens u of None \<Rightarrow> None | Some g \<Rightarrow> refreshToken g)"

definition verifyCallback_fixed ::
  "string \<Rightarrow> string option \<Rightarrow> profile \<Rightarrow> string \<Rightarrow> (user \<Rightarrow> bool) \<Rightarrow> int \<Rightarrow> collection
     \<Rightarrow> (string + string \<times> user) \<times> collection" where
  "verifyCallback_fixed accessTok refreshTok prof newId valid now us =
     (case emails prof of
        [] \<Rightarrow> (Inl ''TypeError'', us)
      | email0 # _ \<Rightarrow>
          (case findOne (\<lambda>u. googleId u = Some (profile_id prof)) us of
             Some (uid, u) \<Rightarrow>
               (let u' = u\<lparr>googleTokens :=
                              Some (tokenData accessTok
                                      (str_or refreshTok (existing_refreshToken u)) now),
                            lastLogin := Some now\<rparr>
                in (Inr (uid, u'), save uid u' us))
           | None \<Rightarrow>
               (case findOne (\<lambda>u. email u = toLowerCase email0) us of
                  Some (uid, u) \<Rightarrow>
                    (let u' = u\<lparr>googleId := Some (profile_id prof),
                                 profilePicture := first_photo prof,
                                 googleTokens :=
                                   Some (tokenData accessTok
                                           (str_or refreshTok (existing_refreshToken u)) now),
                                 lastLogin := Some now\<rparr>
                     in (Inr (uid, u'), save uid u' us))
                | None \<Rightarrow>
                    (let u' = \<lparr>name = trim (displayName prof), email = toLowerCase email0,
                               googleId = Some (profile_id prof),
                               profilePicture = first_photo prof,
                               googleTokens = Some (tokenData accessTok refreshTok now),
                               lastLogin = Some now\<rparr>
                     in if valid u' then (Inr (newId, u'), us @ [(newId, u')])
                        else (Inl ''ValidationError'', us)))))"

section \<open>Disconnect (src/config/database.js, lines 636-662)\<close>



section \<open>A provider call wrapper: getEmails (lines 305-347)\<close>

text \<open>
  \<open>maxResults\<close> is a JavaScript number as the controllers pass it
  (\<^verbatim>\<open>parseInt(req.query.maxResults)\<close>): an integer of either sign, or \<^verbatim>\<open>NaN\<close>,
  which is \<open>None\<close> here.
\<close>

definition math_min :: "int option \<Rightarrow> int \<Rightarrow> int option" where
  \<comment> \<open>\<^verbatim>\<open>Math.min(n, b)\<close>, which is \<^verbatim>\<open>NaN\<close> for \<^verbatim>\<open>NaN\<close>\<close>
  "math_min n b = (case n of None \<Rightarrow> None | Some k \<Rightarrow> Some (min k b))"

definition js_slice0 :: "'a list \<Rightarrow> int option \<Rightarrow> 'a list" where
  \<comment> \<open>\<^verbatim>\<open>xs.slice(0, n)\<close>: a negative end counts from the end of the array, \<^verbatim>\<open>NaN\<close> is 0\<close>
  "js_slice0 xs n =
     (case n of
        None \<Rightarrow> []
      | Some k \<Rightarrow> if k < 0 then take (nat (int (length xs) + k)) xs else take (nat k) xs)"

text \<open>
  The remote calls are parameters: \<open>list_messages q n\<close> is the answer of
  \<^verbatim>\<open>gmail.users.messages.list\<close> (the ids of \<^verbatim>\<open>data.messages\<close>, which may be missing)
  and \<open>get_message i\<close> the answer of \<^verbatim>\<open>gmail.users.messages.get\<close>; \<open>Inl\<close> is a
  rejected call.
\<close>

definition getEmails ::
  "string \<Rightarrow> string \<Rightarrow> int option \<Rightarrow> (credentials \<Rightarrow> string + credentials)
     \<Rightarrow> (string \<Rightarrow> int option \<Rightarrow> string + string list option) \<Rightarrow> (string \<Rightarrow> string + 'd)
     \<Rightarrow> int \<Rightarrow> world \<Rightarrow> (string + 'd list) \<times> world" where
  "getEmails userId query maxResults provider list_messages get_message now w =
     (case setupClient userId None provider now w of
        (Inl e, w1) \<Rightarrow> (Inl e, w1)
      | (Inr _, w1) \<Rightarrow>
          (case list_messages query (math_min maxResults 50) of
             Inl e \<Rightarrow> (Inl e, w1)
           | Inr None \<Rightarrow> (Inr [], w1)
           | Inr (Some messages) \<Rightarrow>
               (let emails = map (\<lambda>message. case get_message message of
                                               Inl e \<Rightarrow> None
                                             | Inr d \<Rightarrow> Some d)
                                 (js_slice0 messages maxResults)
                in (Inr (map the (filter (\<lambda>email. email \<noteq> None) emails)), w1))))"

section \<open>Toggle completion (src/config/database.js, lines 369-433)\<close>

text \<open>
  A task and an update request body are JSON objects: a list of keys with their values,
  in the order the keys were set. A value read from an object is a string,
  \<^verbatim>\<open>null\<close>, or \<^verbatim>\<open>undefined\<close> when the key is missing; an object that lacks a
  key is not the object that holds \<^verbatim>\<open>null\<close> under it.
\<close>

datatype jsval = Undefined | Null | Str string

type_synonym obj = "(string \<times> jsval) list"




datatype response = ErrorResponse string nat | Success obj string






section \<open>Sample data\<close>

text \<open>
  Two users at the instant 5000000: both hold an access token that expired at 1000000;
  \<open>alice\<close> has a refresh token on file and \<open>bob\<close> has none.
\<close>

definition alice :: user where
  "alice = \<lparr>name = ''Alice'', email = ''alice@example.com'', googleId = Some ''g1'',
            profilePicture = None,
            googleTokens = Some \<lparr>accessToken = Some ''at0'', refreshToken = Some ''rt0'',
                                 accessTokenExpiry = Some 1000000, expiryDate = Some 1000000,
                                 scope = []\<rparr>,
            lastLogin = None\<rparr>"

definition bob :: user where
  "bob = \<lparr>name = ''Bob'', email = ''bob@example.com'', googleId = Some ''g2'',
          profilePicture = None,
          googleTokens = Some \<lparr>accessToken = Some ''bt0'', refreshToken = None,
                               accessTokenExpiry = Some 1000000, expiryDate = Some 1000000,
                               scope = []\<rparr>,
          lastLogin = None\<rparr>"

definition world0 :: world where
  "world0 = \<lparr>users = [(''u1'', alice), (''u2'', bob)], tokenCache = Map.empty,
             oauthClientPool = [], clients = [], oauth2Client = None, requests = [],
             exchanges = 0\<rparr>"

definition response0 :: credentials where
  \<comment> \<open>a token response without a refresh token\<close>
  "response0 = \<lparr>access_token = Some ''at1'', refresh_token = None,
                 expiry_date = Some 8600000, expires_in = None\<rparr>"

definition provider_ok :: "credentials \<Rightarrow> string + credentials" where
  "provider_ok c = Inr response0"

definition provider_down :: "credentials \<Rightarrow> string + credentials" where
  "provider_down c = Inl ''ETIMEDOUT''"

definition cached0 :: credentials where
  "cached0 = \<lparr>access_token = Some ''at0'', refresh_token = Some ''rt0'',
               expiry_date = Some 1000000, expires_in = None\<rparr>"

definition world_live :: world where
  \<comment> \<open>\<open>alice\<close> after a call: a live cache entry and a pooled client\<close>
  "world_live = \<lparr>users = [(''u1'', alice), (''u2'', bob)],
                 tokenCache = [''tokens_u1'' \<mapsto> \<lparr>cvalue = cached0\<lparr>expiry_date := Some 9000000\<rparr>,
                                                    expires = 6000000\<rparr>],
                 oauthClientPool = [(''oauth_u1'', 0)],
                 clients = [\<lparr>client_credentials = cached0\<rparr>],
                 oauth2Client = Some 0, requests = [], exchanges = 0\<rparr>"

definition world_stale :: world where
  \<comment> \<open>\<open>world0\<close> with a live cache entry that names a refresh token for \<open>bob\<close>\<close>
  "world_stale = world0\<lparr>tokenCache :=
                   [''tokens_u2'' \<mapsto> \<lparr>cvalue = cached0\<lparr>refresh_token := Some ''rt9''\<rparr>,
                                      expires = 6000000\<rparr>]\<rparr>"

definition full_pool :: "(string \<times> nat) list" where
  \<comment> \<open>100 pooled clients, of the users \<^verbatim>\<open>u\<close>, \<^verbatim>\<open>uu\<close>, \<^verbatim>\<open>uuu\<close>, ...\<close>
  "full_pool = map (\<lambda>i. (''oauth_'' @ replicate (Suc i) CHR ''u'', i)) [0..<100]"

definition world_full :: world where
  "world_full = \<lparr>users = [], tokenCache = Map.empty, oauthClientPool = full_pool,
                 clients = replicate 100 \<lparr>client_credentials = no_credentials\<rparr>,
                 oauth2Client = None, requests = [], exchanges = 0\<rparr>"

definition profile_alice :: profile where
  "profile_alice = \<lparr>profile_id = ''g1'', displayName = ''Alice'',
                     emails = [''alice@example.com''], photos = []\<rparr>"



definition list_messages0 :: "string \<Rightarrow> int option \<Rightarrow> string + string list option" where
  "list_messages0 q n = Inr (Some [''m1'', ''m2'', ''m3''])"

definition get_message0 :: "string \<Rightarrow> string + string" where
  \<comment> \<open>the second message cannot be fetched\<close>
  "get_message0 i = (if i = ''m2'' then Inl ''Not Found'' else Inr (''mail '' @ i))"




section \<open>Frame lemmas: what each step leaves alone\<close>

lemma findById_update_same:
  "findById uid (findByIdAndUpdate uid f us) = map_option f (findById uid us)"
  by (induction us) (auto simp: findById_def findByIdAndUpdate_def)

lemma users_setCredentials [simp]: "users (setCredentials c t w) = users w"
  by (simp add: setCredentials_def)

lemma tokenCache_setCredentials [simp]: "tokenCache (setCredentials c t w) = tokenCache w"
  by (simp add: setCredentials_def)

lemma exchanges_setCredentials [simp]: "exchanges (setCredentials c t w) = exchanges w"
  by (simp add: setCredentials_def)

lemma pool_setCredentials [simp]: "oauthClientPool (setCredentials c t w) = oauthClientPool w"
  by (simp add: setCredentials_def)

lemma users_getOAuthClient [simp]: "users (snd (getOAuthClient uid t w)) = users w"
  by (simp add: getOAuthClient_def Let_def split: option.splits)

lemma tokenCache_getOAuthClient [simp]: "tokenCache (snd (getOAuthClient uid t w)) = tokenCache w"
  by (simp add: getOAuthClient_def Let_def split: option.splits)

lemma exchanges_getOAuthClient [simp]: "exchanges (snd (getOAuthClient uid t w)) = exchanges w"
  by (simp add: getOAuthClient_def Let_def split: option.splits)

lemma users_sync [simp]: "users (syncTokensWithSession uid req w) = users w"
  by (simp add: syncTokensWithSession_def split: option.splits prod.splits)

lemma tokenCache_sync [simp]: "tokenCache (syncTokensWithSession uid req w) = tokenCache w"
  by (simp add: syncTokensWithSession_def split: option.splits prod.splits)

lemma exchanges_sync [simp]: "exchanges (syncTokensWithSession uid req w) = exchanges w"
  by (simp add: syncTokensWithSession_def split: option.splits prod.splits)

lemma pool_sync [simp]: "oauthClientPool (syncTokensWithSession uid req w) = oauthClientPool w"
  by (simp add: syncTokensWithSession_def split: option.splits prod.splits)

lemma updateUserTokens_Inr:
  "updateUserTokens uid t req n1 n2 n3 n4 w = Inr w' \<Longrightarrow>
     users w' = findByIdAndUpdate uid (set_googleTokens (updateData t n1 n2)) (users w)
     \<and> exchanges w' = exchanges w"
  by (auto simp: updateUserTokens_def Let_def split: if_splits)

lemma updateUserTokens_Inl:
  "updateUserTokens uid t req n1 n2 n3 n4 w = Inl e \<Longrightarrow> e = ''CastError''"
  by (auto simp: updateUserTokens_def Let_def split: if_splits)

lemma stored_refreshToken_update:
  "stored_refreshToken (findByIdAndUpdate uid (set_googleTokens (updateData t n1 n2)) us) uid =
     (case findById uid us of None \<Rightarrow> None
      | Some u \<Rightarrow> if truthy (refresh_token t) then refresh_token t
                  else (case googleTokens u of None \<Rightarrow> None | Some g \<Rightarrow> refreshToken g))"
  by (simp add: stored_refreshToken_def findById_update_same set_googleTokens_def
      updateData_def Let_def no_tokens_def split: option.splits)

lemma getOAuthClient_frame:
  "getOAuthClient uid t w = (c, w') \<Longrightarrow>
     users w' = users w \<and> tokenCache w' = tokenCache w \<and> exchanges w' = exchanges w"
  using users_getOAuthClient[of uid t w] tokenCache_getOAuthClient[of uid t w]
    exchanges_getOAuthClient[of uid t w] by simp

section \<open>Refresh: the refresh token is kept, failures evict the cache entry\<close>

lemma refreshToken_try_users:
  assumes "refreshToken_try uid req provider now w = (Inr c, w')"
  shows "\<exists>u g resp. findById uid (users w) = Some u \<and> googleTokens u = Some g
         \<and> truthy (refreshToken g)
         \<and> provider (no_credentials\<lparr>refresh_token := refreshToken g\<rparr>) = Inr resp
         \<and> c = (if \<not> truthy (refresh_token resp) then resp\<lparr>refresh_token := refreshToken g\<rparr> else resp)
         \<and> users w' = findByIdAndUpdate uid (set_googleTokens (updateData c now now)) (users w)"
  using assms
  by (auto simp: refreshToken_try_def Let_def
      split: option.splits if_splits prod.splits sum.splits
      dest!: getOAuthClient_frame updateUserTokens_Inr)

text \<open>
  Claim C1. Whenever \<^verbatim>\<open>refreshToken(userId)\<close> succeeds and the provider's response
  carries no refresh token (none, or an empty one), the refresh token stored for the user
  afterwards is the one stored before, and it is still a real (non-empty) token.
\<close>

theorem refresh_keeps_refreshToken:
  assumes "refreshToken_svc userId req provider now w = (Inr credentials, w')"
    and "provider (no_credentials\<lparr>refresh_token := stored_refreshToken (users w) userId\<rparr>)
           = Inr response"
    and "\<not> truthy (refresh_token response)"
  shows "stored_refreshToken (users w') userId = stored_refreshToken (users w) userId
         \<and> truthy (stored_refreshToken (users w') userId)"
proof -
  from assms(1) have t: "refreshToken_try userId req provider now w = (Inr credentials, w')"
    by (auto simp: refreshToken_svc_def split: prod.splits sum.splits)
  from refreshToken_try_users[OF t] obtain u g resp where
    u: "findById userId (users w) = Some u" "googleTokens u = Some g"
       "truthy (refreshToken g)"
       "provider (no_credentials\<lparr>refresh_token := refreshToken g\<rparr>) = Inr resp"
       "credentials = (if \<not> truthy (refresh_token resp) then resp\<lparr>refresh_token := refreshToken g\<rparr> else resp)"
       "users w' = findByIdAndUpdate userId (set_googleTokens (updateData credentials now now)) (users w)"
    by blast
  have s: "stored_refreshToken (users w) userId = refreshToken g"
    using u by (simp add: stored_refreshToken_def)
  with assms(2) u(4) have "resp = response" by simp
  with assms(3) u(5) have c: "refresh_token credentials = refreshToken g" by simp
  show ?thesis using u(1,2,3) c s by (simp add: u(6) stored_refreshToken_update)
qed

text \<open>The definitions unfolded to evaluate an operation on the sample data.\<close>

lemmas eval_defs =
  refreshToken_svc_def refreshToken_try_def getOAuthClient_def setCredentials_def
  updateUserTokens_def syncTokensWithSession_def updateData_def set_googleTokens_def
  findById_def findByIdAndUpdate_def stored_refreshToken_def stored_tokens_def
  cache_set_def cache_get_def cache_del_def truthy_def num_or_def no_credentials_def
  valid_date_def
  no_tokens_def loadTokens_def setupClient_def expiresSoon_def timeUntilExpiry_def
  world0_def alice_def bob_def response0_def provider_ok_def provider_down_def
  cached0_def world_live_def Let_def

theorem refresh_keeps_refreshToken_witness:
  "fst (refreshToken_svc ''u1'' None provider_ok 5000000 world0) =
     Inr (response0\<lparr>refresh_token := Some ''rt0''\<rparr>)
   \<and> \<not> truthy (refresh_token response0)
   \<and> stored_refreshToken (users world0) ''u1'' = Some ''rt0''
   \<and> stored_refreshToken (users (snd (refreshToken_svc ''u1'' None provider_ok 5000000 world0))) ''u1''
       = Some ''rt0''"
proof -
  have r: "refreshToken_svc ''u1'' None provider_ok 5000000 world0 =
      (Inr (response0\<lparr>refresh_token := Some ''rt0''\<rparr>),
       snd (refreshToken_svc ''u1'' None provider_ok 5000000 world0))"
    by (simp add: eval_defs prod_eq_iff)
  have s: "stored_refreshToken (users world0) ''u1'' = Some ''rt0''"
    by (simp add: eval_defs)
  have p: "provider_ok (no_credentials\<lparr>refresh_token := stored_refreshToken (users world0) ''u1''\<rparr>)
      = Inr response0"
    by (simp add: provider_ok_def)
  have t: "\<not> truthy (refresh_token response0)"
    by (simp add: eval_defs)
  from refresh_keeps_refreshToken[where provider = provider_ok and response = response0,
      OF r p t] r s t
  show ?thesis by (metis fst_conv)
qed

text \<open>
  The listener for the client's own refreshes goes through \<^verbatim>\<open>updateUserTokens\<close> too,
  so it keeps the stored refresh token when the new tokens bring none.
\<close>

lemma onTokens_keeps_refreshToken:
  assumes that: "\<not> truthy (refresh_token newTokens)"
  shows "stored_refreshToken (users (onTokens uid newTokens now w)) uid =
     stored_refreshToken (users w) uid"
proof (cases "updateUserTokens uid newTokens None now now now now w")
  case (Inl e)
  then show ?thesis by (simp add: onTokens_def)
next
  case (Inr w1)
  from updateUserTokens_Inr[OF Inr]
  have "users (onTokens uid newTokens now w) =
      findByIdAndUpdate uid (set_googleTokens (updateData newTokens now now)) (users w)"
    by (simp add: onTokens_def Inr Let_def)
  with that show ?thesis
    by (simp add: stored_refreshToken_update) (simp add: stored_refreshToken_def split: option.splits)
qed

text \<open>Every error of the \<^verbatim>\<open>try\<close> block leaves by the \<^verbatim>\<open>catch\<close>.\<close>

lemma refreshToken_svc_failure:
  assumes "fst (refreshToken_try userId req provider now w) = Inl e"
  shows "fst (refreshToken_svc userId req provider now w) =
           Inl ''Token refresh failed - user may need to re-authenticate''
         \<and> tokenCache (snd (refreshToken_svc userId req provider now w)) (''tokens_'' @ userId) = None"
  using assms
  by (cases "refreshToken_try userId req provider now w")
     (auto simp: refreshToken_svc_def cache_del_def split: sum.splits)

lemma refreshToken_try_provider_failure:
  assumes "truthy (stored_refreshToken (users w) userId)"
    and "provider (no_credentials\<lparr>refresh_token := stored_refreshToken (users w) userId\<rparr>) = Inl e"
  shows "fst (refreshToken_try userId req provider now w) = Inl e"
  using assms
  by (auto simp: refreshToken_try_def stored_refreshToken_def Let_def truthy_def
      split: option.splits prod.splits)

text \<open>
  Claim C5. When a refresh token is on file and the provider rejects the exchange,
  \<^verbatim>\<open>refreshToken(userId)\<close> fails with the message
  \<^verbatim>\<open>Token refresh failed - user may need to re-authenticate\<close>, and in the state it leaves
  the user's entry of the Token Cache is gone: a later \<^verbatim>\<open>get\<close> misses.
\<close>

theorem refresh_failure_evicts_cache:
  assumes "truthy (stored_refreshToken (users w) userId)"
    and "provider (no_credentials\<lparr>refresh_token := stored_refreshToken (users w) userId\<rparr>) = Inl e"
  shows "fst (refreshToken_svc userId req provider now w) =
           Inl ''Token refresh failed - user may need to re-authenticate''
         \<and> tokenCache (snd (refreshToken_svc userId req provider now w)) (''tokens_'' @ userId) = None
         \<and> fst (cache_get (''tokens_'' @ userId) later
                  (tokenCache (snd (refreshToken_svc userId req provider now w)))) = None"
proof -
  have "fst (refreshToken_try userId req provider now w) = Inl e"
    using assms by (rule refreshToken_try_provider_failure)
  then show ?thesis
    using refreshToken_svc_failure[of userId req provider now w e] by (simp add: cache_get_def)
qed

theorem refresh_failure_evicts_cache_witness:
  "truthy (stored_refreshToken (users world_live) ''u1'')
   \<and> provider_down (no_credentials\<lparr>refresh_token := stored_refreshToken (users world_live) ''u1''\<rparr>)
       = Inl ''ETIMEDOUT''
   \<and> tokenCache world_live ''tokens_u1'' \<noteq> None
   \<and> fst (refreshToken_svc ''u1'' None provider_down 5000000 world_live) =
       Inl ''Token refresh failed - user may need to re-authenticate''
   \<and> tokenCache (snd (refreshToken_svc ''u1'' None provider_down 5000000 world_live)) ''tokens_u1''
       = None"
proof -
  have a: "truthy (stored_refreshToken (users world_live) ''u1'')"
    by (simp add: eval_defs)
  have b: "provider_down (no_credentials\<lparr>refresh_token := stored_refreshToken (users world_live) ''u1''\<rparr>)
       = Inl ''ETIMEDOUT''"
    by (simp add: provider_down_def)
  have c: "tokenCache world_live ''tokens_u1'' \<noteq> None"
    by (simp add: world_live_def)
  from refresh_failure_evicts_cache[where w = world_live and userId = "''u1''"
      and provider = provider_down and e = "''ETIMEDOUT''" and req = None
      and now = 5000000 and later = 0] a b c
  show ?thesis by simp
qed

text \<open>
  The \<^verbatim>\<open>try\<close> block reads the refresh token from the store: whatever the Token
  Cache holds has no influence on its outcome.
\<close>

lemma refreshToken_try_ignores_cache:
  "fst (refreshToken_try uid req provider now (w\<lparr>tokenCache := c\<rparr>)) =
   fst (refreshToken_try uid req provider now w)"
  by (simp add: refreshToken_try_def getOAuthClient_def updateUserTokens_def Let_def
      split: option.splits sum.splits prod.splits)

text \<open>
  Claim C4. \<open>bob\<close> has no refresh token on file. The \<^verbatim>\<open>try\<close> block reads the
  store and throws \<^verbatim>\<open>No refresh token available - user needs to re-authenticate\<close>
  before any exchange (also when a live cache entry names a refresh token, as in
  \<open>world_stale\<close>), but the \<^verbatim>\<open>catch\<close> of the same function replaces it: the
  caller of \<^verbatim>\<open>refreshToken\<close> and of \<^verbatim>\<open>setupClient\<close> gets the very message that a
  rejected exchange gives (\<open>alice\<close> with the provider down), so the two failures
  cannot be told apart.
\<close>

theorem refresh_failure_kinds_coincide:
  "stored_refreshToken (users world0) ''u2'' = None
   \<and> refreshToken_try ''u2'' None provider_ok 5000000 world0 =
       (Inl ''No refresh token available - user needs to re-authenticate'', world0)
   \<and> fst (refreshToken_svc ''u2'' None provider_ok 5000000 world0) =
       Inl ''Token refresh failed - user may need to re-authenticate''
   \<and> fst (refreshToken_svc ''u1'' None provider_down 5000000 world0) =
       Inl ''Token refresh failed - user may need to re-authenticate''
   \<and> fst (setupClient ''u2'' None provider_ok 5000000 world0) =
       Inl ''Token refresh failed - user may need to re-authenticate''
   \<and> fst (setupClient ''u1'' None provider_down 5000000 world0) =
       Inl ''Token refresh failed - user may need to re-authenticate''
   \<and> fst (cache_get ''tokens_u2'' 5000000 (tokenCache world_stale)) =
       Some (cached0\<lparr>refresh_token := Some ''rt9''\<rparr>)
   \<and> fst (refreshToken_svc ''u2'' None provider_ok 5000000 world_stale) =
       Inl ''Token refresh failed - user may need to re-authenticate''
   \<and> exchanges (snd (refreshToken_svc ''u2'' None provider_ok 5000000 world_stale)) = 0"
  by (simp add: eval_defs world_stale_def)

section \<open>ensureClient: when the provider is asked\<close>

lemma users_loadTokens [simp]: "users (snd (loadTokens uid now w)) = users w"
  by (simp add: loadTokens_def Let_def split: option.splits prod.splits)

lemma exchanges_loadTokens [simp]: "exchanges (snd (loadTokens uid now w)) = exchanges w"
  by (simp add: loadTokens_def Let_def split: option.splits prod.splits)

text \<open>
  With no cache entry the snapshot is the stored credential: its expiry is
  \<^verbatim>\<open>accessTokenExpiry\<close>, or the legacy \<^verbatim>\<open>expiryDate\<close> when that is missing; without a
  stored credential \<^verbatim>\<open>setupClient\<close> stops at once.
\<close>

lemma loadTokens_from_store:
  assumes "tokenCache w (''tokens_'' @ uid) = None"
    and "stored_tokens (users w) uid = Some g" and "truthy (accessToken g)"
  shows "fst (loadTokens uid now w) =
           Inr \<lparr>access_token = accessToken g, refresh_token = refreshToken g,
                expiry_date = (case accessTokenExpiry g of Some t \<Rightarrow> Some t
                               | None \<Rightarrow> expiryDate g),
                expires_in = None\<rparr>"
  using assms
  by (auto simp: loadTokens_def cache_get_def stored_tokens_def Let_def split: option.splits)

lemma loadTokens_not_authenticated:
  assumes "tokenCache w (''tokens_'' @ uid) = None"
    and "stored_tokens (users w) uid = None"
  shows "fst (loadTokens uid now w) = Inl ''User not found or no Google tokens available''"
  using assms
  by (auto simp: loadTokens_def cache_get_def stored_tokens_def Let_def split: option.splits)










section \<open>updateUserTokens: the expiry written\<close>

text \<open>What the update document does to the two expiry fields.\<close>

lemma stored_tokens_update:
  "stored_tokens (findByIdAndUpdate uid (set_googleTokens f) us) uid =
     (case findById uid us of None \<Rightarrow> None
      | Some u \<Rightarrow> Some (f (case googleTokens u of None \<Rightarrow> no_tokens | Some g \<Rightarrow> g)))"
  by (simp add: stored_tokens_def findById_update_same set_googleTokens_def
      split: option.splits)

lemma num_or_cases:
  "num_or v 3600 = (case v of None \<Rightarrow> 3600 | Some n \<Rightarrow> if n = 0 then 3600 else n)"
  by (simp add: num_or_def split: option.splits)

lemma updateData_expiry:
  "accessTokenExpiry (updateData tokens now1 now2 g) =
     Some (now1 + num_or (expires_in tokens) 3600 * 1000)
   \<and> expiryDate (updateData tokens now1 now2 g) =
     Some (now2 + num_or (expires_in tokens) 3600 * 1000)"
  by (simp add: updateData_def Let_def)

lemma updateData_ignores_expiry_date:
  "updateData (tokens\<lparr>expiry_date := x\<rparr>) now1 now2 = updateData tokens now1 now2"
  by (simp add: updateData_def Let_def fun_eq_iff)

text \<open>
  Claim C9, amended. When the user's document exists and both dates are valid,
  \<^verbatim>\<open>updateUserTokens\<close> writes into \<^verbatim>\<open>googleTokens.accessTokenExpiry\<close> and into
  \<^verbatim>\<open>googleTokens.expiryDate\<close> the reading of the clock taken for that field plus
  \<^verbatim>\<open>expires_in\<close> seconds, with 3600 seconds taken when \<^verbatim>\<open>expires_in\<close> is missing
  or zero; the two stored instants are the same exactly when the two readings are. When
  a date is invalid the update fails and writes nothing. The response's
  \<^verbatim>\<open>expiry_date\<close> has no influence on the outcome.
\<close>

theorem updateUserTokens_expiry:
  assumes "findById userId (users w) = Some u"
  shows "(valid_date (now1 + (case expires_in tokens of
                                None \<Rightarrow> 3600 | Some n \<Rightarrow> if n = 0 then 3600 else n) * 1000)
          \<and> valid_date (now2 + (case expires_in tokens of
                                None \<Rightarrow> 3600 | Some n \<Rightarrow> if n = 0 then 3600 else n) * 1000)
          \<longrightarrow> (\<exists>w'. updateUserTokens userId tokens req now1 now2 now3 now4 w = Inr w'
                 \<and> map_option accessTokenExpiry (stored_tokens (users w') userId) =
                     Some (Some (now1 + (case expires_in tokens of
                                           None \<Rightarrow> 3600
                                         | Some n \<Rightarrow> if n = 0 then 3600 else n) * 1000))
                 \<and> map_option expiryDate (stored_tokens (users w') userId) =
                     Some (Some (now2 + (case expires_in tokens of
                                           None \<Rightarrow> 3600
                                         | Some n \<Rightarrow> if n = 0 then 3600 else n) * 1000))
                 \<and> (now1 = now2 \<longleftrightarrow>
                      map_option expiryDate (stored_tokens (users w') userId) =
                      map_option accessTokenExpiry (stored_tokens (users w') userId))))
         \<and> (\<not> (valid_date (now1 + (case expires_in tokens of
                                None \<Rightarrow> 3600 | Some n \<Rightarrow> if n = 0 then 3600 else n) * 1000)
               \<and> valid_date (now2 + (case expires_in tokens of
                                None \<Rightarrow> 3600 | Some n \<Rightarrow> if n = 0 then 3600 else n) * 1000))
          \<longrightarrow> updateUserTokens userId tokens req now1 now2 now3 now4 w = Inl ''CastError'')
         \<and> updateUserTokens userId (tokens\<lparr>expiry_date := x\<rparr>) req now1 now2 now3 now4 w =
           updateUserTokens userId tokens req now1 now2 now3 now4 w"
proof -
  let ?ttl = "(case expires_in tokens of None \<Rightarrow> 3600 | Some n \<Rightarrow> if n = 0 then 3600 else n)"
  let ?ok = "valid_date (now1 + ?ttl * 1000) \<and> valid_date (now2 + ?ttl * 1000)"
  have n: "num_or (expires_in tokens) 3600 = ?ttl"
    by (rule num_or_cases)
  have a: "?ok \<longrightarrow> (\<exists>w'. updateUserTokens userId tokens req now1 now2 now3 now4 w = Inr w'
                 \<and> map_option accessTokenExpiry (stored_tokens (users w') userId) =
                     Some (Some (now1 + ?ttl * 1000))
                 \<and> map_option expiryDate (stored_tokens (users w') userId) =
                     Some (Some (now2 + ?ttl * 1000))
                 \<and> (now1 = now2 \<longleftrightarrow>
                      map_option expiryDate (stored_tokens (users w') userId) =
                      map_option accessTokenExpiry (stored_tokens (users w') userId)))"
  proof
    assume ok: ?ok
    then obtain w' where w': "updateUserTokens userId tokens req now1 now2 now3 now4 w = Inr w'"
      by (simp add: updateUserTokens_def n Let_def)
    from updateUserTokens_Inr[OF w'] assms
    have s: "stored_tokens (users w') userId =
        Some (updateData tokens now1 now2
                (case googleTokens u of None \<Rightarrow> no_tokens | Some g \<Rightarrow> g))"
      by (simp add: stored_tokens_update)
    show "\<exists>w'. updateUserTokens userId tokens req now1 now2 now3 now4 w = Inr w'
                 \<and> map_option accessTokenExpiry (stored_tokens (users w') userId) =
                     Some (Some (now1 + ?ttl * 1000))
                 \<and> map_option expiryDate (stored_tokens (users w') userId) =
                     Some (Some (now2 + ?ttl * 1000))
                 \<and> (now1 = now2 \<longleftrightarrow>
                      map_option expiryDate (stored_tokens (users w') userId) =
                      map_option accessTokenExpiry (stored_tokens (users w') userId))"
      using w' by (auto simp: s updateData_expiry n)
  qed
  have b: "\<not> ?ok \<longrightarrow> updateUserTokens userId tokens req now1 now2 now3 now4 w = Inl ''CastError''"
    by (simp add: updateUserTokens_def n)
  have c: "updateUserTokens userId (tokens\<lparr>expiry_date := x\<rparr>) req now1 now2 now3 now4 w =
           updateUserTokens userId tokens req now1 now2 now3 now4 w"
    by (simp add: updateUserTokens_def updateData_ignores_expiry_date)
  from a b c show ?thesis by blast
qed

theorem updateUserTokens_expiry_witness:
  "findById ''u1'' (users world0) = Some alice
   \<and> (\<exists>w'. updateUserTokens ''u1'' (response0\<lparr>expires_in := Some 7200\<rparr>) None
               5000000 5000001 5000002 5000003 world0 = Inr w'
         \<and> map_option accessTokenExpiry (stored_tokens (users w') ''u1'') = Some (Some 12200000)
         \<and> map_option expiryDate (stored_tokens (users w') ''u1'') = Some (Some 12200001))
   \<and> (\<exists>w'. updateUserTokens ''u1'' response0 None 5000000 5000000 5000000 5000000 world0 = Inr w'
         \<and> map_option accessTokenExpiry (stored_tokens (users w') ''u1'') = Some (Some 8600000)
         \<and> map_option expiryDate (stored_tokens (users w') ''u1'') = Some (Some 8600000))
   \<and> updateUserTokens ''u1'' (response0\<lparr>expires_in := Some 9000000000000000\<rparr>) None
         5000000 5000000 5000000 5000000 world0 = Inl ''CastError''"
proof -
  have a: "findById ''u1'' (users world0) = Some alice"
    by (simp add: world0_def findById_def)
  from updateUserTokens_expiry[OF a, where tokens = "response0\<lparr>expires_in := Some 7200\<rparr>"
      and ?now1.0 = 5000000 and ?now2.0 = 5000001 and ?now3.0 = 5000002 and ?now4.0 = 5000003
      and req = None and x = None]
  have 1: "\<exists>w'. updateUserTokens ''u1'' (response0\<lparr>expires_in := Some 7200\<rparr>) None
               5000000 5000001 5000002 5000003 world0 = Inr w'
         \<and> map_option accessTokenExpiry (stored_tokens (users w') ''u1'') = Some (Some 12200000)
         \<and> map_option expiryDate (stored_tokens (users w') ''u1'') = Some (Some 12200001)"
    by (auto simp: response0_def valid_date_def)
  from updateUserTokens_expiry[OF a, where tokens = response0
      and ?now1.0 = 5000000 and ?now2.0 = 5000000 and ?now3.0 = 5000000 and ?now4.0 = 5000000
      and req = None and x = None]
  have 2: "\<exists>w'. updateUserTokens ''u1'' response0 None 5000000 5000000 5000000 5000000 world0 = Inr w'
         \<and> map_option accessTokenExpiry (stored_tokens (users w') ''u1'') = Some (Some 8600000)
         \<and> map_option expiryDate (stored_tokens (users w') ''u1'') = Some (Some 8600000)"
    by (auto simp: response0_def valid_date_def)
  from updateUserTokens_expiry[OF a,
      where tokens = "response0\<lparr>expires_in := Some 9000000000000000\<rparr>"
      and ?now1.0 = 5000000 and ?now2.0 = 5000000 and ?now3.0 = 5000000 and ?now4.0 = 5000000
      and req = None and x = None]
  have 3: "updateUserTokens ''u1'' (response0\<lparr>expires_in := Some 9000000000000000\<rparr>) None
         5000000 5000000 5000000 5000000 world0 = Inl ''CastError''"
    by (auto simp: response0_def valid_date_def)
  from a 1 2 3 show ?thesis by blast
qed

text \<open>
  Claim C9 as stated (3600 only when \<^verbatim>\<open>expires_in\<close> is absent) fails for a response
  with \<^verbatim>\<open>expires_in: 0\<close>, even with all readings of the clock equal: the expiry
  stored is one hour after the reading, not the reading itself.
\<close>

theorem updateUserTokens_zero_expires_in_counterexample:
  "\<not> (\<forall>tokens w'.
        updateUserTokens ''u1'' tokens None 5000000 5000000 5000000 5000000 world0 = Inr w' \<longrightarrow>
        map_option accessTokenExpiry (stored_tokens (users w') ''u1'') =
        Some (Some (5000000 + (case expires_in tokens of None \<Rightarrow> 3600 | Some n \<Rightarrow> n) * 1000)))"
proof
  assume h: "\<forall>tokens w'.
        updateUserTokens ''u1'' tokens None 5000000 5000000 5000000 5000000 world0 = Inr w' \<longrightarrow>
        map_option accessTokenExpiry (stored_tokens (users w') ''u1'') =
        Some (Some (5000000 + (case expires_in tokens of None \<Rightarrow> 3600 | Some n \<Rightarrow> n) * 1000))"
  obtain w' where w': "updateUserTokens ''u1'' (response0\<lparr>expires_in := Some 0\<rparr>) None
      5000000 5000000 5000000 5000000 world0 = Inr w'"
    by (simp add: updateUserTokens_def num_or_def valid_date_def response0_def Let_def)
  have "findById ''u1'' (users world0) = Some alice"
    by (simp add: world0_def findById_def)
  with updateUserTokens_Inr[OF w']
  have "map_option accessTokenExpiry (stored_tokens (users w') ''u1'') = Some (Some 8600000)"
    by (simp add: stored_tokens_update updateData_expiry num_or_def response0_def)
  with h[rule_format, OF w'] show False
    by simp
qed

section \<open>The Client Pool at its cap\<close>

text \<open>
  A pooled client is looked up by key; a new key goes to the end of the \<^verbatim>\<open>Map\<close>, and
  the first key is dropped beforehand only when the pool holds more than 100 entries.
\<close>

lemma update_absent: "map_of al k = None \<Longrightarrow> AList.update k v al = al @ [(k, v)]"
  by (induction al) (auto split: if_splits)

lemma getOAuthClient_below_cap:
  assumes "map_of (oauthClientPool w) (''oauth_'' @ uid) = None"
    and "length (oauthClientPool w) \<le> 100"
  shows "oauthClientPool (snd (getOAuthClient uid t w)) =
           oauthClientPool w @ [(''oauth_'' @ uid, length (clients w))]"
  using assms by (simp add: getOAuthClient_def Let_def update_absent split: option.splits)

lemma getOAuthClient_above_cap:
  assumes "map_of (oauthClientPool w) (''oauth_'' @ uid) = None"
    and "length (oauthClientPool w) > 100"
    and "distinct (map fst (oauthClientPool w))"
  shows "oauthClientPool (snd (getOAuthClient uid t w)) =
           tl (oauthClientPool w) @ [(''oauth_'' @ uid, length (clients w))]"
proof (cases "oauthClientPool w")
  case Nil
  with assms(2) show ?thesis by simp
next
  case (Cons p ps)
  obtain k c where p: "p = (k, c)" by (cases p)
  from assms(3) Cons p have "k \<notin> fst ` set ps" by simp
  then have d: "AList.delete k ps = ps"
    by (induction ps) auto
  from assms(1) Cons p have n: "map_of ps (''oauth_'' @ uid) = None"
    by (simp split: if_splits)
  have o: "\<And>t. oauthClientPool (case t of None \<Rightarrow> w\<lparr>clients := clients w @ [\<lparr>client_credentials = no_credentials\<rparr>]\<rparr>
       | Some t' \<Rightarrow> setCredentials (length (clients w)) t' (w\<lparr>clients := clients w @ [\<lparr>client_credentials = no_credentials\<rparr>]\<rparr>)) = oauthClientPool w"
    by (simp split: option.splits)
  show ?thesis
    using assms(1,2) Cons p d n
    by (simp add: getOAuthClient_def Let_def o update_absent split: option.splits)
qed

text \<open>
  Claim C6. \<open>world_full\<close> pools exactly 100 clients, none for the user \<^verbatim>\<open>new\<close>.
  \<^verbatim>\<open>getOAuthClient("new")\<close> evicts nothing, since 100 is not greater than 100: the pool
  then holds 101 entries, the oldest (\<^verbatim>\<open>oauth_u\<close>) still among them.
\<close>

theorem pool_at_cap_grows:
  "length (oauthClientPool world_full) = 100
   \<and> map_of (oauthClientPool world_full) ''oauth_new'' = None
   \<and> oauthClientPool (snd (getOAuthClient ''new'' None world_full)) =
       oauthClientPool world_full @ [(''oauth_new'', 100)]
   \<and> length (oauthClientPool (snd (getOAuthClient ''new'' None world_full))) = 101
   \<and> map_of (oauthClientPool (snd (getOAuthClient ''new'' None world_full))) ''oauth_u'' = Some 0"
proof -
  have l: "length (oauthClientPool world_full) = 100"
    by (simp add: world_full_def full_pool_def)
  have "''oauth_new'' \<notin> fst ` set full_pool"
    by (auto simp: full_pool_def)
  then have m: "map_of (oauthClientPool world_full) (''oauth_'' @ ''new'') = None"
    by (simp add: world_full_def map_of_eq_None_iff)
  have c: "length (clients world_full) = 100"
    by (simp add: world_full_def)
  have g: "oauthClientPool (snd (getOAuthClient ''new'' None world_full)) =
       oauthClientPool world_full @ [(''oauth_new'', 100)]"
    using getOAuthClient_below_cap[OF m, of None] l c by simp
  have fp: "full_pool = (''oauth_u'', 0) # map (\<lambda>i. (''oauth_'' @ replicate (Suc i) CHR ''u'', i)) [1..<100]"
    by (simp add: full_pool_def upt_rec[of 0])
  have h: "map_of (oauthClientPool world_full) ''oauth_u'' = Some 0"
    by (simp add: world_full_def fp)
  from l m g h show ?thesis by (simp add: map_add_Some_iff)
qed

section \<open>The consent handler and the stored refresh token\<close>

text \<open>The definitions unfolded to evaluate the consent handler.\<close>

lemmas consent_defs =
  verifyCallback_def verifyCallback_fixed_def findOne_def save_def first_photo_def
  tokenData_def existing_refreshToken_def str_or_def profile_alice_def toLowerCase_def
  trim_def whitespace_def

text \<open>
  Claim C2. \<open>alice\<close> has the refresh token \<^verbatim>\<open>rt0\<close> on file. When the consent flow
  delivers an access token and no refresh token, the handler of
  \<^verbatim>\<open>src/config/passport.js\<close> assigns a fresh \<^verbatim>\<open>googleTokens\<close> object whose
  \<^verbatim>\<open>refreshToken\<close> is the missing one: afterwards no refresh token is stored, whether
  the user was found by Google id or linked by e-mail address. The repository's second
  copy of the handler keeps \<^verbatim>\<open>rt0\<close> on the same input.
\<close>

theorem consent_overwrites_refreshToken:
  "stored_refreshToken [(''u1'', alice)] ''u1'' = Some ''rt0''
   \<and> stored_refreshToken
         (snd (verifyCallback ''at2'' None profile_alice ''u9'' (\<lambda>u. True) 5000000
                 [(''u1'', alice)])) ''u1'' = None
   \<and> stored_refreshToken
         (snd (verifyCallback ''at2'' None profile_alice ''u9'' (\<lambda>u. True) 5000000
                 [(''u1'', alice\<lparr>googleId := None\<rparr>)])) ''u1'' = None
   \<and> stored_refreshToken
         (snd (verifyCallback_fixed ''at2'' None profile_alice ''u9'' (\<lambda>u. True) 5000000
                 [(''u1'', alice)])) ''u1'' = Some ''rt0''
   \<and> stored_refreshToken
         (snd (verifyCallback_fixed ''at2'' None profile_alice ''u9'' (\<lambda>u. True) 5000000
                 [(''u1'', alice\<lparr>googleId := None\<rparr>)])) ''u1'' = Some ''rt0''"
  by (simp add: eval_defs consent_defs)

section \<open>Disconnect\<close>






section \<open>getEmails\<close>

text \<open>
  What \<^verbatim>\<open>getEmails\<close> returns, said without \<^verbatim>\<open>null\<close>: each message contributes its
  detail when the fetch succeeds and nothing when it fails.
\<close>

lemma successes_concat:
  "map the (filter (\<lambda>email. email \<noteq> None)
      (map (\<lambda>message. case f message of Inl e \<Rightarrow> None | Inr d \<Rightarrow> Some d) xs)) =
   concat (map (\<lambda>m. case f m of Inl e \<Rightarrow> [] | Inr d \<Rightarrow> [d]) xs)"
  by (induction xs) (auto split: sum.splits)

lemma length_successes:
  "length (concat (map (\<lambda>m. case f m of Inl e \<Rightarrow> [] | Inr d \<Rightarrow> [d]) xs)) \<le> length xs"
  by (induction xs) (auto split: sum.splits)

lemma js_slice0_cases:
  "js_slice0 xs n =
     (case n of None \<Rightarrow> []
      | Some k \<Rightarrow> if 0 \<le> k then take (nat k) xs else take (length xs - nat (- k)) xs)"
proof (cases n)
  case None
  then show ?thesis by (simp add: js_slice0_def)
next
  case (Some k)
  have "k < 0 \<Longrightarrow> nat (int (length xs) + k) = length xs - nat (- k)"
    by linarith
  with Some show ?thesis by (simp add: js_slice0_def)
qed

text \<open>
  Claim C10, amended. When the client is set up and the list call answers with messages,
  \<^verbatim>\<open>getEmails\<close> succeeds whatever the single fetches do, and returns, in the order of
  the list, the details of exactly those messages of \<^verbatim>\<open>messages.slice(0, maxResults)\<close>
  whose fetch succeeded: of the first \<open>maxResults\<close> listed messages when
  \<open>maxResults\<close> is not negative (so at most \<open>maxResults\<close> results), of all but the
  last \<open>- maxResults\<close> listed messages when it is negative, and of none when it is
  \<^verbatim>\<open>NaN\<close>.
\<close>

theorem getEmails_returns_successes:
  assumes "fst (setupClient userId None provider now w) = Inr c"
    and "list_messages query (math_min maxResults 50) = Inr (Some messages)"
  shows "fst (getEmails userId query maxResults provider list_messages get_message now w) =
           Inr (concat (map (\<lambda>m. case get_message m of Inl e \<Rightarrow> [] | Inr d \<Rightarrow> [d])
                  (case maxResults of
                     None \<Rightarrow> []
                   | Some k \<Rightarrow> if 0 \<le> k then take (nat k) messages
                              else take (length messages - nat (- k)) messages)))
         \<and> (\<forall>k. maxResults = Some k \<and> 0 \<le> k \<longrightarrow>
               (\<exists>r. fst (getEmails userId query maxResults provider list_messages get_message
                            now w) = Inr r \<and> int (length r) \<le> k))"
proof -
  let ?ok = "\<lambda>xs. concat (map (\<lambda>m. case get_message m of Inl e \<Rightarrow> [] | Inr d \<Rightarrow> [d]) xs)"
  have e: "fst (getEmails userId query maxResults provider list_messages get_message now w) =
      Inr (?ok (js_slice0 messages maxResults))"
    using assms
    by (cases "setupClient userId None provider now w")
       (simp add: getEmails_def Let_def successes_concat del: not_None_eq)
  have l: "int (length (?ok (take (nat k) messages))) \<le> k" if "0 \<le> k" for k
  proof -
    have "length (?ok (take (nat k) messages)) \<le> nat k"
      using length_successes[of get_message "take (nat k) messages"] by simp
    with that show ?thesis by linarith
  qed
  show ?thesis
  proof (intro conjI allI impI)
    show "fst (getEmails userId query maxResults provider list_messages get_message now w) =
           Inr (?ok (case maxResults of
                     None \<Rightarrow> []
                   | Some k \<Rightarrow> if 0 \<le> k then take (nat k) messages
                              else take (length messages - nat (- k)) messages))"
      by (simp add: e js_slice0_cases)
  next
    fix k
    assume k: "maxResults = Some k \<and> 0 \<le> k"
    then have "js_slice0 messages maxResults = take (nat k) messages"
      by (simp add: js_slice0_cases)
    with e l[of k] k
    show "\<exists>r. fst (getEmails userId query maxResults provider list_messages get_message
                    now w) = Inr r \<and> int (length r) \<le> k"
      by simp
  qed
qed

theorem getEmails_returns_successes_witness:
  "fst (setupClient ''u1'' None provider_ok 5000000 world_live) = Inr (Some 0)
   \<and> get_message0 ''m2'' = Inl ''Not Found''
   \<and> fst (getEmails ''u1'' [] (Some 2) provider_ok list_messages0 get_message0 5000000 world_live) =
       Inr [''mail m1'']
   \<and> fst (getEmails ''u1'' [] (Some 3) provider_ok list_messages0 get_message0 5000000 world_live) =
       Inr [''mail m1'', ''mail m3'']
   \<and> fst (getEmails ''u1'' [] None provider_ok list_messages0 get_message0 5000000 world_live) =
       Inr []"
proof -
  have a: "fst (setupClient ''u1'' None provider_ok 5000000 world_live) = Inr (Some 0)"
    by (simp add: eval_defs)
  have b: "list_messages0 [] (math_min n 50) = Inr (Some [''m1'', ''m2'', ''m3''])" for n
    by (simp add: list_messages0_def)
  from getEmails_returns_successes[where list_messages = list_messages0
      and get_message = get_message0 and provider = provider_ok
      and maxResults = "Some 2", OF a b, THEN conjunct1]
    getEmails_returns_successes[where list_messages = list_messages0
      and get_message = get_message0 and provider = provider_ok
      and maxResults = "Some 3", OF a b, THEN conjunct1]
    getEmails_returns_successes[where list_messages = list_messages0
      and get_message = get_message0 and provider = provider_ok
      and maxResults = None, OF a b, THEN conjunct1] a
  show ?thesis
    by (simp add: get_message0_def numeral_2_eq_2 numeral_3_eq_3)
qed

text \<open>
  Claim C10 as stated fails for \<open>maxResults = -1\<close>: of three listed messages the
  first two are fetched, and the one result returned is more than \<open>maxResults\<close>.
\<close>

theorem getEmails_negative_maxResults_counterexample:
  "fst (setupClient ''u1'' None provider_ok 5000000 world_live) = Inr (Some 0)
   \<and> list_messages0 [] (math_min (Some (- 1)) 50) = Inr (Some [''m1'', ''m2'', ''m3''])
   \<and> fst (getEmails ''u1'' [] (Some (- 1)) provider_ok list_messages0 get_message0 5000000
            world_live) = Inr [''mail m1'']
   \<and> \<not> int (length [''mail m1'']) \<le> - 1"
proof -
  have a: "fst (setupClient ''u1'' None provider_ok 5000000 world_live) = Inr (Some 0)"
    by (simp add: eval_defs)
  have b: "list_messages0 [] (math_min (Some (- 1)) 50) = Inr (Some [''m1'', ''m2'', ''m3''])"
    by (simp add: list_messages0_def)
  have "fst (getEmails ''u1'' [] (Some (- 1)) provider_ok list_messages0 get_message0 5000000
            world_live) = Inr [''mail m1'']"
    using a b
    by (cases "setupClient ''u1'' None provider_ok 5000000 world_live")
       (simp add: getEmails_def js_slice0_def Let_def get_message0_def numeral_2_eq_2)
  with a b show ?thesis by simp
qed

section \<open>Toggle completion\<close>





end
